theory Spec2Isabelle
  imports Main
begin

section \<open>Python values of \<open>auth_manager.py\<close>\<close>

text \<open>
  The module stores its providers and credentials in two Python dictionaries and its
  free-form metadata in a third. A Python \<open>dict\<close> keeps its keys in insertion order,
  and \<open>list_providers\<close> shows that order, so a dictionary is an association list:
  \<open>d[k] = v\<close> overwrites the entry of \<open>k\<close> where it stands or appends a new one,
  \<open>del d[k]\<close> removes it, \<open>d.get(k)\<close> is \<open>None\<close> for a key that is absent.
  The module deletes only a key it has just found, so the \<open>KeyError\<close> of \<open>del\<close> on
  an absent key never arises; \<open>dict_del\<close> leaves the dictionary as it is there.
\<close>

type_synonym ('k, 'v) dict = "('k \<times> 'v) list"

fun dict_get :: "('k, 'v) dict \<Rightarrow> 'k \<Rightarrow> 'v option" where
  "dict_get [] k = None"
| "dict_get ((k', v') # d) k = (if k' = k then Some v' else dict_get d k)"

fun dict_set :: "('k, 'v) dict \<Rightarrow> 'k \<Rightarrow> 'v \<Rightarrow> ('k, 'v) dict" where
  "dict_set [] k v = [(k, v)]"
| "dict_set ((k', v') # d) k v =
     (if k' = k then (k, v) # d else (k', v') # dict_set d k v)"

fun dict_del :: "('k, 'v) dict \<Rightarrow> 'k \<Rightarrow> ('k, 'v) dict" where
  "dict_del [] k = []"
| "dict_del ((k', v') # d) k =
     (if k' = k then dict_del d k else (k', v') # dict_del d k)"

definition dict_keys :: "('k, 'v) dict \<Rightarrow> 'k list" where
  "dict_keys d = map fst d"

text \<open>\<open>k in d\<close>.\<close>

definition dict_contains :: "('k, 'v) dict \<Rightarrow> 'k \<Rightarrow> bool" where
  "dict_contains d k = (k \<in> set (dict_keys d))"

text \<open>The values a \<open>Dict[str, Any]\<close> of this module holds.\<close>

datatype py_value = PyNone | PyBool bool | PyInt int | PyStr string

text \<open>
  The truth value of an \<open>Optional[str]\<close>, as \<open>if credentials.access_token:\<close>
  tests it: \<open>None\<close> and the empty string are false, every other string is true.
\<close>

definition truthy :: "string option \<Rightarrow> bool" where
  "truthy x = (case x of None \<Rightarrow> False | Some s \<Rightarrow> s \<noteq> [])"

text \<open>
  The only exception the module raises is \<open>ValueError\<close>, with a message. An operation
  of the manager either returns a value or raises; it is modelled as a function from the
  manager's state to that outcome and the state it leaves behind.
\<close>

datatype exn = ValueError string

text \<open>The class of an exception, \<open>type(e).__name__\<close>: what an \<open>except\<close> clause matches on.\<close>

primrec exn_class :: "exn \<Rightarrow> string" where
  "exn_class (ValueError msg) = ''ValueError''"

datatype 'a outcome = Returned 'a | Raised exn

text \<open>The exception an outcome raised, if it raised one.\<close>

fun raised :: "'a outcome \<Rightarrow> exn option" where
  "raised (Returned v) = None"
| "raised (Raised e) = Some e"

section \<open>Credentials\<close>

datatype AuthProviderType = OAUTH2 | BASIC | API_KEY | JWT | CUSTOM

record AuthCredentials =
  provider_type :: AuthProviderType
  access_token :: "string option"
  refresh_token :: "string option"
  username :: "string option"
  password :: "string option"
  api_key :: "string option"
  expires_in :: "int option"
  metadata :: "(string, py_value) dict"

text \<open>
  The dataclass constructor with \<open>__post_init__\<close>: a metadata argument of \<open>None\<close>
  (the default) becomes a fresh empty dictionary.
\<close>

definition AuthCredentials_init ::
  "AuthProviderType \<Rightarrow> string option \<Rightarrow> string option \<Rightarrow> string option \<Rightarrow> string option \<Rightarrow>
   string option \<Rightarrow> int option \<Rightarrow> (string, py_value) dict option \<Rightarrow> AuthCredentials" where
  "AuthCredentials_init pt at rt un pw ak ex md =
     \<lparr>provider_type = pt, access_token = at, refresh_token = rt, username = un,
      password = pw, api_key = ak, expires_in = ex,
      metadata = (case md of None \<Rightarrow> [] | Some d \<Rightarrow> d)\<rparr>"

section \<open>Providers\<close>

text \<open>
  \<open>AuthProvider\<close> is an abstract class with four concrete subclasses in the module. A
  provider carries its \<open>provider_id\<close> and its \<open>config\<close>. The manager calls a provider
  only through the four abstract methods, so any further subclass is modelled by
  \<open>CustomProvider\<close>, which carries its own four methods as functions: such a subclass
  is taken to return a value on every credential and to keep no state of its own.

  The concrete methods log and wrap their bodies in \<open>try ... except Exception\<close>; the
  bodies only read fields of the credential and write one metadata entry, none of which
  raises, so the handlers are never entered.

  \<open>refresh_token\<close> of the OAuth2 and JWT providers writes
  \<open>str(datetime.utcnow())\<close> into the credential; the clock reading is the parameter
  \<open>now\<close>. The Python method mutates the credential object it is given and returns
  it; the model returns the updated credential value.
\<close>

definition OAuth2Provider_authenticate :: "AuthCredentials \<Rightarrow> bool" where
  "OAuth2Provider_authenticate c = (if truthy (access_token c) then True else False)"

definition OAuth2Provider_refresh_token :: "string \<Rightarrow> AuthCredentials \<Rightarrow> AuthCredentials" where
  "OAuth2Provider_refresh_token now c =
     c\<lparr>metadata := dict_set (metadata c) ''refreshed_at'' (PyStr now)\<rparr>"

definition OAuth2Provider_revoke_token :: "AuthCredentials \<Rightarrow> bool" where
  "OAuth2Provider_revoke_token c = True"

definition OAuth2Provider_validate_token :: "AuthCredentials \<Rightarrow> bool" where
  "OAuth2Provider_validate_token c = (if \<not> truthy (access_token c) then False else True)"

definition BasicAuthProvider_authenticate :: "AuthCredentials \<Rightarrow> bool" where
  "BasicAuthProvider_authenticate c =
     (if truthy (username c) \<and> truthy (password c) then True else False)"

definition BasicAuthProvider_refresh_token :: "string \<Rightarrow> AuthCredentials \<Rightarrow> AuthCredentials" where
  "BasicAuthProvider_refresh_token now c = c"

definition BasicAuthProvider_revoke_token :: "AuthCredentials \<Rightarrow> bool" where
  "BasicAuthProvider_revoke_token c = True"

definition BasicAuthProvider_validate_token :: "AuthCredentials \<Rightarrow> bool" where
  "BasicAuthProvider_validate_token c = (truthy (username c) \<and> truthy (password c))"

definition APIKeyProvider_authenticate :: "AuthCredentials \<Rightarrow> bool" where
  "APIKeyProvider_authenticate c = (if truthy (api_key c) then True else False)"

definition APIKeyProvider_refresh_token :: "string \<Rightarrow> AuthCredentials \<Rightarrow> AuthCredentials" where
  "APIKeyProvider_refresh_token now c = c"

definition APIKeyProvider_revoke_token :: "AuthCredentials \<Rightarrow> bool" where
  "APIKeyProvider_revoke_token c = True"

definition APIKeyProvider_validate_token :: "AuthCredentials \<Rightarrow> bool" where
  "APIKeyProvider_validate_token c = truthy (api_key c)"

definition JWTProvider_authenticate :: "AuthCredentials \<Rightarrow> bool" where
  "JWTProvider_authenticate c = (if truthy (access_token c) then True else False)"

definition JWTProvider_refresh_token :: "string \<Rightarrow> AuthCredentials \<Rightarrow> AuthCredentials" where
  "JWTProvider_refresh_token now c =
     c\<lparr>metadata := dict_set (metadata c) ''refreshed_at'' (PyStr now)\<rparr>"

definition JWTProvider_revoke_token :: "AuthCredentials \<Rightarrow> bool" where
  "JWTProvider_revoke_token c = True"

definition JWTProvider_validate_token :: "AuthCredentials \<Rightarrow> bool" where
  "JWTProvider_validate_token c = (if \<not> truthy (access_token c) then False else True)"

datatype AuthProvider =
    OAuth2Provider string "(string, py_value) dict"
  | BasicAuthProvider string "(string, py_value) dict"
  | APIKeyProvider string "(string, py_value) dict"
  | JWTProvider string "(string, py_value) dict"
  | CustomProvider string "(string, py_value) dict"
      "AuthCredentials \<Rightarrow> bool" "AuthCredentials \<Rightarrow> AuthCredentials"
      "AuthCredentials \<Rightarrow> bool" "AuthCredentials \<Rightarrow> bool"

fun provider_id :: "AuthProvider \<Rightarrow> string" where
  "provider_id (OAuth2Provider i cfg) = i"
| "provider_id (BasicAuthProvider i cfg) = i"
| "provider_id (APIKeyProvider i cfg) = i"
| "provider_id (JWTProvider i cfg) = i"
| "provider_id (CustomProvider i cfg au rf rv va) = i"

text \<open>Method dispatch: \<open>provider.authenticate(credentials)\<close> and the other three.\<close>

fun provider_authenticate :: "AuthProvider \<Rightarrow> AuthCredentials \<Rightarrow> bool" where
  "provider_authenticate (OAuth2Provider i cfg) c = OAuth2Provider_authenticate c"
| "provider_authenticate (BasicAuthProvider i cfg) c = BasicAuthProvider_authenticate c"
| "provider_authenticate (APIKeyProvider i cfg) c = APIKeyProvider_authenticate c"
| "provider_authenticate (JWTProvider i cfg) c = JWTProvider_authenticate c"
| "provider_authenticate (CustomProvider i cfg au rf rv va) c = au c"

fun provider_refresh_token :: "AuthProvider \<Rightarrow> string \<Rightarrow> AuthCredentials \<Rightarrow> AuthCredentials" where
  "provider_refresh_token (OAuth2Provider i cfg) now c = OAuth2Provider_refresh_token now c"
| "provider_refresh_token (BasicAuthProvider i cfg) now c = BasicAuthProvider_refresh_token now c"
| "provider_refresh_token (APIKeyProvider i cfg) now c = APIKeyProvider_refresh_token now c"
| "provider_refresh_token (JWTProvider i cfg) now c = JWTProvider_refresh_token now c"
| "provider_refresh_token (CustomProvider i cfg au rf rv va) now c = rf c"

fun provider_revoke_token :: "AuthProvider \<Rightarrow> AuthCredentials \<Rightarrow> bool" where
  "provider_revoke_token (OAuth2Provider i cfg) c = OAuth2Provider_revoke_token c"
| "provider_revoke_token (BasicAuthProvider i cfg) c = BasicAuthProvider_revoke_token c"
| "provider_revoke_token (APIKeyProvider i cfg) c = APIKeyProvider_revoke_token c"
| "provider_revoke_token (JWTProvider i cfg) c = JWTProvider_revoke_token c"
| "provider_revoke_token (CustomProvider i cfg au rf rv va) c = rv c"

fun provider_validate_token :: "AuthProvider \<Rightarrow> AuthCredentials \<Rightarrow> bool" where
  "provider_validate_token (OAuth2Provider i cfg) c = OAuth2Provider_validate_token c"
| "provider_validate_token (BasicAuthProvider i cfg) c = BasicAuthProvider_validate_token c"
| "provider_validate_token (APIKeyProvider i cfg) c = APIKeyProvider_validate_token c"
| "provider_validate_token (JWTProvider i cfg) c = JWTProvider_validate_token c"
| "provider_validate_token (CustomProvider i cfg au rf rv va) c = va c"

section \<open>The manager\<close>

text \<open>
  \<open>AuthManager\<close> holds \<open>_providers\<close> and \<open>_credentials\<close>, both keyed by provider id.
  The manager stores the credential object the caller passes; the model stores its
  value, which is what every operation below reads back under the same id. One
  credential object shared between two ids, or changed by the caller after the call, is
  outside the model, and no statement below is about a credential stored under another
  id after a refresh.

  A provider and a credential are objects without \<open>__bool__\<close> or \<open>__len__\<close>, always
  true in a condition: \<open>if not provider\<close> and \<open>if not credentials\<close> test for \<open>None\<close>,
  the result of \<open>dict.get\<close> on an absent key. A method that raises does so before it
  writes anything, so the state it leaves is the state it was given.
\<close>

record AuthManager =
  providers :: "(string, AuthProvider) dict"
  credentials :: "(string, AuthCredentials) dict"

definition AuthManager_init :: AuthManager where
  "AuthManager_init = \<lparr>providers = [], credentials = []\<rparr>"

text \<open>The three messages of the module's \<open>raise ValueError(f"...")\<close> statements.\<close>

definition already_registered_msg :: "string \<Rightarrow> string" where
  "already_registered_msg pid = ''Provider '' @ [CHR 0x27] @ pid @ [CHR 0x27] @ '' already registered''"

definition not_found_msg :: "string \<Rightarrow> string" where
  "not_found_msg pid = ''Provider '' @ [CHR 0x27] @ pid @ [CHR 0x27] @ '' not found''"

definition no_credentials_msg :: "string \<Rightarrow> string" where
  "no_credentials_msg pid = ''No credentials found for provider '' @ [CHR 0x27] @ pid @ [CHR 0x27]"

definition register_provider :: "AuthManager \<Rightarrow> AuthProvider \<Rightarrow> unit outcome \<times> AuthManager" where
  "register_provider m p =
     (if dict_contains (providers m) (provider_id p)
      then (Raised (ValueError (already_registered_msg (provider_id p))), m)
      else (Returned (), m\<lparr>providers := dict_set (providers m) (provider_id p) p\<rparr>))"

definition unregister_provider :: "AuthManager \<Rightarrow> string \<Rightarrow> bool \<times> AuthManager" where
  "unregister_provider m pid =
     (if dict_contains (providers m) pid
      then (True, m\<lparr>providers := dict_del (providers m) pid\<rparr>)
      else (False, m))"

definition get_provider :: "AuthManager \<Rightarrow> string \<Rightarrow> AuthProvider option" where
  "get_provider m pid = dict_get (providers m) pid"

definition list_providers :: "AuthManager \<Rightarrow> string list" where
  "list_providers m = dict_keys (providers m)"

definition authenticate :: "AuthManager \<Rightarrow> string \<Rightarrow> AuthCredentials \<Rightarrow> bool outcome \<times> AuthManager" where
  "authenticate m pid c =
     (case get_provider m pid of
        None \<Rightarrow> (Raised (ValueError (not_found_msg pid)), m)
      | Some p \<Rightarrow>
          if provider_authenticate p c
          then (Returned True, m\<lparr>credentials := dict_set (credentials m) pid c\<rparr>)
          else (Returned False, m))"

definition validate_credentials :: "AuthManager \<Rightarrow> string \<Rightarrow> bool" where
  "validate_credentials m pid =
     (case dict_get (credentials m) pid of
        None \<Rightarrow> False
      | Some c \<Rightarrow>
          (case get_provider m pid of
             None \<Rightarrow> False
           | Some p \<Rightarrow> provider_validate_token p c))"

definition refresh_credentials :: "string \<Rightarrow> AuthManager \<Rightarrow> string \<Rightarrow> bool outcome \<times> AuthManager" where
  "refresh_credentials now m pid =
     (case dict_get (credentials m) pid of
        None \<Rightarrow> (Raised (ValueError (no_credentials_msg pid)), m)
      | Some c \<Rightarrow>
          (case get_provider m pid of
             None \<Rightarrow> (Raised (ValueError (not_found_msg pid)), m)
           | Some p \<Rightarrow>
               (Returned True,
                m\<lparr>credentials := dict_set (credentials m) pid (provider_refresh_token p now c)\<rparr>)))"

definition revoke_credentials :: "AuthManager \<Rightarrow> string \<Rightarrow> bool \<times> AuthManager" where
  "revoke_credentials m pid =
     (case dict_get (credentials m) pid of
        None \<Rightarrow> (False, m)
      | Some c \<Rightarrow>
          (case get_provider m pid of
             None \<Rightarrow> (False, m)
           | Some p \<Rightarrow>
               if provider_revoke_token p c
               then (True, m\<lparr>credentials := dict_del (credentials m) pid\<rparr>)
               else (False, m)))"

definition get_credentials :: "AuthManager \<Rightarrow> string \<Rightarrow> AuthCredentials option" where
  "get_credentials m pid = dict_get (credentials m) pid"

definition clear_all_credentials :: "AuthManager \<Rightarrow> AuthManager" where
  "clear_all_credentials m = m\<lparr>credentials := []\<rparr>"

text \<open>
  The loop of \<open>get_authentication_status\<close>: \<open>status[provider_id] =
  self.validate_credentials(provider_id)\<close> for each key, from the empty dictionary.
\<close>

fun status_loop :: "AuthManager \<Rightarrow> string list \<Rightarrow> (string, bool) dict \<Rightarrow> (string, bool) dict" where
  "status_loop m [] status = status"
| "status_loop m (pid # pids) status =
     status_loop m pids (dict_set status pid (validate_credentials m pid))"

definition get_authentication_status :: "AuthManager \<Rightarrow> (string, bool) dict" where
  "get_authentication_status m = status_loop m (dict_keys (providers m)) []"

section \<open>Dictionary facts\<close>

lemma dict_get_set: "dict_get (dict_set d k v) k' = (if k' = k then Some v else dict_get d k')"
  by (induction d) auto

lemma dict_get_del: "dict_get (dict_del d k) k' = (if k' = k then None else dict_get d k')"
  by (induction d) auto

lemma dict_contains_iff: "dict_contains d k \<longleftrightarrow> dict_get d k \<noteq> None"
  by (induction d) (auto simp: dict_contains_def dict_keys_def)

lemma dict_keys_iff: "k \<in> set (dict_keys d) \<longleftrightarrow> dict_get d k \<noteq> None"
  using dict_contains_iff [of d k] by (simp add: dict_contains_def)

lemma dict_set_same: "dict_get d k = Some v \<Longrightarrow> dict_set d k v = d"
  by (induction d) (auto split: if_splits)

section \<open>Unfolding the operations\<close>

lemmas manager_defs = AuthManager_init_def register_provider_def unregister_provider_def
  get_provider_def list_providers_def authenticate_def validate_credentials_def
  refresh_credentials_def revoke_credentials_def get_credentials_def clear_all_credentials_def
  get_authentication_status_def dict_contains_def dict_keys_def AuthCredentials_init_def

lemmas provider_defs = OAuth2Provider_authenticate_def OAuth2Provider_refresh_token_def
  OAuth2Provider_revoke_token_def OAuth2Provider_validate_token_def
  BasicAuthProvider_authenticate_def BasicAuthProvider_refresh_token_def
  BasicAuthProvider_revoke_token_def BasicAuthProvider_validate_token_def
  APIKeyProvider_authenticate_def APIKeyProvider_refresh_token_def
  APIKeyProvider_revoke_token_def APIKeyProvider_validate_token_def
  JWTProvider_authenticate_def JWTProvider_refresh_token_def
  JWTProvider_revoke_token_def JWTProvider_validate_token_def truthy_def

section \<open>The status sweep\<close>

lemma status_loop_get:
  "dict_get (status_loop m pids status) pid =
     (if pid \<in> set pids then Some (validate_credentials m pid) else dict_get status pid)"
  by (induction pids arbitrary: status) (auto simp: dict_get_set)

lemma get_authentication_status_get:
  "dict_get (get_authentication_status m) pid =
     (if pid \<in> set (list_providers m) then Some (validate_credentials m pid) else None)"
  by (simp add: get_authentication_status_def list_providers_def status_loop_get)

lemma validate_credentials_cleared: "validate_credentials (clear_all_credentials m) pid = False"
  by (simp add: validate_credentials_def clear_all_credentials_def)

section \<open>The messages tell the three failures apart\<close>

lemma already_registered_not_not_found: "already_registered_msg a \<noteq> not_found_msg b"
proof
  assume "already_registered_msg a = not_found_msg b"
  then have "rev (already_registered_msg a) = rev (not_found_msg b)"
    by simp
  then show False
    by (simp add: already_registered_msg_def not_found_msg_def)
qed

lemma already_registered_not_no_credentials: "already_registered_msg a \<noteq> no_credentials_msg b"
  by (simp add: already_registered_msg_def no_credentials_msg_def)

lemma not_found_not_no_credentials: "not_found_msg a \<noteq> no_credentials_msg b"
  by (simp add: not_found_msg_def no_credentials_msg_def)

section \<open>Registration\<close>

text \<open>
  Claim C8. \<open>register_provider\<close> raises when a provider with the same identifier is
  already registered (the spec's DuplicateProviderError is the module's
  \<open>ValueError("Provider '...' already registered")\<close>), and the second provider is not
  stored: the manager is left exactly as it was, so \<open>list_providers\<close>, the provider
  collection and the credential collection are those of before the call.
\<close>

theorem register_provider_duplicate:
  "provider_id p \<in> set (list_providers m) \<Longrightarrow>
   fst (register_provider m p) = Raised (ValueError (already_registered_msg (provider_id p))) \<and>
   snd (register_provider m p) = m \<and>
   list_providers (snd (register_provider m p)) = list_providers m \<and>
   providers (snd (register_provider m p)) = providers m \<and>
   credentials (snd (register_provider m p)) = credentials m"
  by (simp add: register_provider_def list_providers_def dict_contains_def)

text \<open>
  Registering an OAuth2 provider \<open>hf\<close> and then a Basic provider \<open>hf\<close>: the second call
  raises and \<open>hf\<close> is still the OAuth2 provider.
\<close>

theorem register_provider_duplicate_witness:
  "provider_id (BasicAuthProvider ''hf'' []) \<in>
     set (list_providers (snd (register_provider AuthManager_init (OAuth2Provider ''hf'' [])))) \<and>
   fst (register_provider (snd (register_provider AuthManager_init (OAuth2Provider ''hf'' [])))
          (BasicAuthProvider ''hf'' [])) =
     Raised (ValueError (''Provider '' @ [CHR 0x27] @ ''hf'' @ [CHR 0x27] @ '' already registered'')) \<and>
   list_providers (snd (register_provider (snd (register_provider AuthManager_init (OAuth2Provider ''hf'' [])))
          (BasicAuthProvider ''hf'' []))) = [''hf''] \<and>
   get_provider (snd (register_provider (snd (register_provider AuthManager_init (OAuth2Provider ''hf'' [])))
          (BasicAuthProvider ''hf'' []))) ''hf'' = Some (OAuth2Provider ''hf'' [])"
  using register_provider_duplicate [of "BasicAuthProvider ''hf'' []"
      "snd (register_provider AuthManager_init (OAuth2Provider ''hf'' []))"]
  by (simp add: register_provider_def AuthManager_init_def list_providers_def dict_contains_def
      dict_keys_def get_provider_def already_registered_msg_def)

section \<open>Error kinds\<close>

text \<open>
  Claim C2, as stated, fails. The claim has the duplicate registration, the operation
  on an unregistered id and the refresh without a stored credential raised as three
  distinct error kinds. The module has one: a second registration of \<open>hf\<close>, an
  \<open>authenticate\<close> on the empty manager and a \<open>refresh_credentials\<close> before any
  authentication all raise an exception of class \<open>ValueError\<close>.
\<close>

theorem error_kinds_counterexample:
  "map_option exn_class (raised (fst (register_provider
       (snd (register_provider AuthManager_init (OAuth2Provider ''hf'' [])))
       (BasicAuthProvider ''hf'' [])))) =
   map_option exn_class (raised (fst (authenticate AuthManager_init ''hf''
       (AuthCredentials_init OAUTH2 (Some ''tok-1'') None None None None None None)))) \<and>
   map_option exn_class (raised (fst (authenticate AuthManager_init ''hf''
       (AuthCredentials_init OAUTH2 (Some ''tok-1'') None None None None None None)))) =
   map_option exn_class (raised (fst (refresh_credentials ''2026-01-01 00:00:00''
       (snd (register_provider AuthManager_init (OAuth2Provider ''hf'' []))) ''hf''))) \<and>
   map_option exn_class (raised (fst (refresh_credentials ''2026-01-01 00:00:00''
       (snd (register_provider AuthManager_init (OAuth2Provider ''hf'' []))) ''hf''))) =
   Some ''ValueError''"
  by (simp add: manager_defs)

text \<open>
  Claim C2, amended. The three structural failures are all raised as \<open>ValueError\<close> and
  differ in their message only: registering an id that is already registered raises
  \<open>ValueError("Provider '<id>' already registered")\<close>; \<open>authenticate\<close> on an
  unregistered id, and \<open>refresh_credentials\<close> on an unregistered id that still has a
  stored credential, raise \<open>ValueError("Provider '<id>' not found")\<close>;
  \<open>refresh_credentials\<close> with no stored credential raises
  \<open>ValueError("No credentials found for provider '<id>'")\<close>. The three messages are
  pairwise different whatever the ids, so the message, not the kind, tells a caller which
  failure occurred.
\<close>

theorem structural_failures_differ_by_message:
  "(provider_id p \<in> set (list_providers m) \<longrightarrow>
      raised (fst (register_provider m p)) = Some (ValueError (already_registered_msg (provider_id p)))) \<and>
   (pid \<notin> set (list_providers m) \<longrightarrow>
      raised (fst (authenticate m pid c)) = Some (ValueError (not_found_msg pid))) \<and>
   (get_credentials m pid \<noteq> None \<and> pid \<notin> set (list_providers m) \<longrightarrow>
      raised (fst (refresh_credentials now m pid)) = Some (ValueError (not_found_msg pid))) \<and>
   (get_credentials m pid = None \<longrightarrow>
      raised (fst (refresh_credentials now m pid)) = Some (ValueError (no_credentials_msg pid))) \<and>
   already_registered_msg a \<noteq> not_found_msg b \<and>
   already_registered_msg a \<noteq> no_credentials_msg b \<and>
   not_found_msg a \<noteq> no_credentials_msg b"
  using already_registered_not_not_found [of a b] already_registered_not_no_credentials [of a b]
    not_found_not_no_credentials [of a b]
  by (auto simp: register_provider_def authenticate_def refresh_credentials_def list_providers_def
      dict_contains_def get_provider_def get_credentials_def dict_keys_iff split: option.splits)

text \<open>
  The four failing calls on concrete managers: \<open>hf\<close> registered and never
  authenticated, and \<open>hf\<close> authenticated and then unregistered.
\<close>

theorem structural_failures_differ_by_message_witness:
  "(let m = snd (register_provider AuthManager_init (OAuth2Provider ''hf'' []))
    in provider_id (BasicAuthProvider ''hf'' []) \<in> set (list_providers m) \<and>
       raised (fst (register_provider m (BasicAuthProvider ''hf'' []))) =
         Some (ValueError (already_registered_msg ''hf'')) \<and>
       get_credentials m ''hf'' = None \<and>
       raised (fst (refresh_credentials ''2026-01-01 00:00:00'' m ''hf'')) =
         Some (ValueError (no_credentials_msg ''hf''))) \<and>
   (let c = AuthCredentials_init OAUTH2 (Some ''tok-1'') None None None None None None;
        m = snd (unregister_provider (snd (authenticate (snd (register_provider AuthManager_init
              (OAuth2Provider ''hf'' []))) ''hf'' c)) ''hf'')
    in ''hf'' \<notin> set (list_providers m) \<and>
       raised (fst (authenticate m ''hf'' c)) = Some (ValueError (not_found_msg ''hf'')) \<and>
       get_credentials m ''hf'' \<noteq> None \<and>
       raised (fst (refresh_credentials ''2026-01-01 00:00:00'' m ''hf'')) =
         Some (ValueError (not_found_msg ''hf'')))"
  using
    structural_failures_differ_by_message [of "BasicAuthProvider ''hf'' []"
      "snd (register_provider AuthManager_init (OAuth2Provider ''hf'' []))" "''hf''"
      "AuthCredentials_init OAUTH2 (Some ''tok-1'') None None None None None None"
      "''2026-01-01 00:00:00''" "''hf''" "''hf''"]
    structural_failures_differ_by_message [of "BasicAuthProvider ''hf'' []"
      "snd (unregister_provider (snd (authenticate (snd (register_provider AuthManager_init
              (OAuth2Provider ''hf'' []))) ''hf''
              (AuthCredentials_init OAUTH2 (Some ''tok-1'') None None None None None None))) ''hf'')"
      "''hf''"
      "AuthCredentials_init OAUTH2 (Some ''tok-1'') None None None None None None"
      "''2026-01-01 00:00:00''" "''hf''" "''hf''"]
  by (simp add: manager_defs provider_defs Let_def)

section \<open>Provider predicates\<close>

text \<open>
  Claim C6, as stated, fails. The claim has \<open>authenticate\<close> return true exactly when
  the required field is present. The providers test the field's truth value, so a
  credential whose access token is present and is the empty string is rejected by the
  OAuth2 provider, by \<open>authenticate\<close> and by \<open>validate_token\<close> alike.
\<close>

theorem provider_authenticate_empty_token_counterexample:
  "access_token (AuthCredentials_init OAUTH2 (Some '''') None None None None None None) \<noteq> None \<and>
   provider_authenticate (OAuth2Provider ''hf'' [])
     (AuthCredentials_init OAUTH2 (Some '''') None None None None None None) = False \<and>
   provider_validate_token (OAuth2Provider ''hf'' [])
     (AuthCredentials_init OAUTH2 (Some '''') None None None None None None) = False"
  by (simp add: manager_defs provider_defs)

text \<open>
  Claim C6, amended. For every credential and each of the four provider variants,
  \<open>authenticate\<close> returns true exactly when the variant's required fields are present
  and not the empty string (OAuth2 and JWT: the access token; Basic: both the username
  and the password; API key: the api key) and false otherwise; \<open>validate_token\<close> is the
  same predicate; an absent field gives false. Both are functions into the booleans:
  neither raises.
\<close>

theorem provider_authenticate_validate_fields:
  "provider_authenticate (OAuth2Provider i cfg) c = (\<exists>t. access_token c = Some t \<and> t \<noteq> '''') \<and>
   provider_authenticate (JWTProvider i cfg) c = (\<exists>t. access_token c = Some t \<and> t \<noteq> '''') \<and>
   provider_authenticate (BasicAuthProvider i cfg) c =
     ((\<exists>u. username c = Some u \<and> u \<noteq> '''') \<and> (\<exists>w. password c = Some w \<and> w \<noteq> '''')) \<and>
   provider_authenticate (APIKeyProvider i cfg) c = (\<exists>k. api_key c = Some k \<and> k \<noteq> '''') \<and>
   provider_validate_token (OAuth2Provider i cfg) c = provider_authenticate (OAuth2Provider i cfg) c \<and>
   provider_validate_token (JWTProvider i cfg) c = provider_authenticate (JWTProvider i cfg) c \<and>
   provider_validate_token (BasicAuthProvider i cfg) c = provider_authenticate (BasicAuthProvider i cfg) c \<and>
   provider_validate_token (APIKeyProvider i cfg) c = provider_authenticate (APIKeyProvider i cfg) c \<and>
   provider_authenticate (OAuth2Provider i cfg) (c\<lparr>access_token := None\<rparr>) = False \<and>
   provider_authenticate (JWTProvider i cfg) (c\<lparr>access_token := None\<rparr>) = False \<and>
   provider_authenticate (BasicAuthProvider i cfg) (c\<lparr>username := None\<rparr>) = False \<and>
   provider_authenticate (BasicAuthProvider i cfg) (c\<lparr>password := None\<rparr>) = False \<and>
   provider_authenticate (APIKeyProvider i cfg) (c\<lparr>api_key := None\<rparr>) = False"
  by (auto simp: provider_defs split: option.splits)

text \<open>
  A Basic credential with a username and a password is accepted; with the username alone
  it is rejected.
\<close>

theorem provider_authenticate_validate_fields_witness:
  "provider_authenticate (BasicAuthProvider ''b'' [])
     (AuthCredentials_init BASIC None None (Some ''alice'') (Some ''pw1'') None None None) = True \<and>
   provider_validate_token (BasicAuthProvider ''b'' [])
     (AuthCredentials_init BASIC None None (Some ''alice'') (Some ''pw1'') None None None) = True \<and>
   provider_authenticate (BasicAuthProvider ''b'' [])
     (AuthCredentials_init BASIC None None (Some ''alice'') None None None None) = False \<and>
   provider_validate_token (BasicAuthProvider ''b'' [])
     (AuthCredentials_init BASIC None None (Some ''alice'') None None None None) = False"
  using
    provider_authenticate_validate_fields [of "''b''" "[]"
      "AuthCredentials_init BASIC None None (Some ''alice'') (Some ''pw1'') None None None"]
    provider_authenticate_validate_fields [of "''b''" "[]"
      "AuthCredentials_init BASIC None None (Some ''alice'') None None None None"]
  by (simp add: manager_defs provider_defs)

section \<open>Authentication\<close>

text \<open>
  Claim C3. For every manager and credential, \<open>authenticate\<close> on an unregistered id
  raises the provider-not-found error (the spec's ProviderNotFoundError is the module's
  \<open>ValueError("Provider '...' not found")\<close>) and changes nothing. When the provider's
  \<open>authenticate\<close> returns true the manager returns true and holds the credential under
  the id, whatever it held there before. When the provider's \<open>authenticate\<close> returns
  false the manager returns false and is left as it was, so a credential stored earlier
  under the id is still the one stored.
\<close>

theorem authenticate_contract:
  "(pid \<notin> set (list_providers m) \<longrightarrow>
      authenticate m pid c = (Raised (ValueError (not_found_msg pid)), m)) \<and>
   (\<forall>p. get_provider m pid = Some p \<and> provider_authenticate p c \<longrightarrow>
      fst (authenticate m pid c) = Returned True \<and>
      get_credentials (snd (authenticate m pid c)) pid = Some c \<and>
      providers (snd (authenticate m pid c)) = providers m) \<and>
   (\<forall>p. get_provider m pid = Some p \<and> \<not> provider_authenticate p c \<longrightarrow>
      fst (authenticate m pid c) = Returned False \<and>
      get_credentials (snd (authenticate m pid c)) pid = get_credentials m pid \<and>
      snd (authenticate m pid c) = m)"
  by (auto simp: authenticate_def get_provider_def list_providers_def dict_keys_iff
      get_credentials_def dict_get_set)

text \<open>
  The three cases on concrete managers: \<open>hf\<close> on the empty manager; a Basic provider
  \<open>b\<close> that holds a credential and is given a second valid one, which replaces the
  first; the same provider given a credential with no password, which leaves the first
  in place.
\<close>

theorem authenticate_contract_witness:
  "(let m0 = AuthManager_init;
        c = AuthCredentials_init OAUTH2 (Some ''tok-1'') None None None None None None
    in ''hf'' \<notin> set (list_providers m0) \<and>
       authenticate m0 ''hf'' c = (Raised (ValueError (not_found_msg ''hf'')), m0)) \<and>
   (let m1 = snd (register_provider AuthManager_init (BasicAuthProvider ''b'' []));
        c1 = AuthCredentials_init BASIC None None (Some ''alice'') (Some ''pw1'') None None None;
        c2 = AuthCredentials_init BASIC None None (Some ''alice'') (Some ''pw2'') None None None;
        m2 = snd (authenticate m1 ''b'' c1)
    in get_provider m2 ''b'' = Some (BasicAuthProvider ''b'' []) \<and>
       provider_authenticate (BasicAuthProvider ''b'' []) c2 \<and>
       get_credentials m2 ''b'' = Some c1 \<and>
       fst (authenticate m2 ''b'' c2) = Returned True \<and>
       get_credentials (snd (authenticate m2 ''b'' c2)) ''b'' = Some c2) \<and>
   (let m1 = snd (register_provider AuthManager_init (BasicAuthProvider ''b'' []));
        c1 = AuthCredentials_init BASIC None None (Some ''alice'') (Some ''pw1'') None None None;
        c3 = AuthCredentials_init BASIC None None (Some ''alice'') None None None None;
        m2 = snd (authenticate m1 ''b'' c1)
    in get_provider m2 ''b'' = Some (BasicAuthProvider ''b'' []) \<and>
       \<not> provider_authenticate (BasicAuthProvider ''b'' []) c3 \<and>
       fst (authenticate m2 ''b'' c3) = Returned False \<and>
       get_credentials (snd (authenticate m2 ''b'' c3)) ''b'' = Some c1)"
  using
    authenticate_contract [of "''hf''" AuthManager_init
      "AuthCredentials_init OAUTH2 (Some ''tok-1'') None None None None None None"]
    authenticate_contract [of "''b''"
      "snd (authenticate (snd (register_provider AuthManager_init (BasicAuthProvider ''b'' []))) ''b''
         (AuthCredentials_init BASIC None None (Some ''alice'') (Some ''pw1'') None None None))"
      "AuthCredentials_init BASIC None None (Some ''alice'') (Some ''pw2'') None None None"]
    authenticate_contract [of "''b''"
      "snd (authenticate (snd (register_provider AuthManager_init (BasicAuthProvider ''b'' []))) ''b''
         (AuthCredentials_init BASIC None None (Some ''alice'') (Some ''pw1'') None None None))"
      "AuthCredentials_init BASIC None None (Some ''alice'') None None None None"]
  by (simp add: manager_defs provider_defs Let_def)

section \<open>Refresh\<close>

text \<open>
  Claim C1, as stated, fails. The claim has \<open>refresh_credentials\<close> on an id that was
  never registered raise the provider-not-found error. The method looks the stored
  credential up first: on the empty manager, \<open>refresh_credentials("missing")\<close> raises
  \<open>ValueError("No credentials found for provider 'missing'")\<close>, the error of a missing
  credential, and not \<open>ValueError("Provider 'missing' not found")\<close>.
\<close>

theorem refresh_credentials_missing_counterexample:
  "''missing'' \<notin> set (list_providers AuthManager_init) \<and>
   get_provider AuthManager_init ''missing'' = None \<and>
   get_credentials AuthManager_init ''missing'' = None \<and>
   fst (refresh_credentials ''2026-01-01 00:00:00'' AuthManager_init ''missing'') =
     Raised (ValueError (''No credentials found for provider '' @ [CHR 0x27] @ ''missing'' @ [CHR 0x27])) \<and>
   fst (refresh_credentials ''2026-01-01 00:00:00'' AuthManager_init ''missing'') \<noteq>
     Raised (ValueError (''Provider '' @ [CHR 0x27] @ ''missing'' @ [CHR 0x27] @ '' not found''))"
  by (simp add: refresh_credentials_def AuthManager_init_def list_providers_def dict_keys_def
      get_provider_def get_credentials_def no_credentials_msg_def)

text \<open>
  Claim C1, amended. Calling \<open>refresh_credentials\<close> on a provider id that was never
  registered (the manager holds neither a provider nor a credential for it) raises the
  credentials-not-found error, \<open>ValueError("No credentials found for provider '<id>'")\<close>,
  which is not the provider-not-found error, and leaves the manager as it was.
\<close>

theorem refresh_credentials_never_registered:
  "pid \<notin> set (list_providers m) \<Longrightarrow> get_credentials m pid = None \<Longrightarrow>
   refresh_credentials now m pid = (Raised (ValueError (no_credentials_msg pid)), m) \<and>
   no_credentials_msg pid \<noteq> not_found_msg pid"
  using not_found_not_no_credentials [of pid pid]
  by (simp add: refresh_credentials_def get_credentials_def)

text \<open>The empty manager and the id \<open>missing\<close>.\<close>

theorem refresh_credentials_never_registered_witness:
  "''missing'' \<notin> set (list_providers AuthManager_init) \<and>
   get_credentials AuthManager_init ''missing'' = None \<and>
   refresh_credentials ''2026-01-01 00:00:00'' AuthManager_init ''missing'' =
     (Raised (ValueError (no_credentials_msg ''missing'')), AuthManager_init)"
  using refresh_credentials_never_registered [of "''missing''" AuthManager_init "''2026-01-01 00:00:00''"]
  by (simp add: AuthManager_init_def list_providers_def dict_keys_def get_credentials_def)

text \<open>
  Claim C5. For an OAuth2 or a JWT provider registered under an id that has a stored
  credential, \<open>refresh_credentials\<close> returns true, and the credential stored afterwards
  has the entry \<open>refreshed_at\<close> in its metadata, holding the clock reading, while its
  access token, its refresh token and every other field but the metadata are those of
  the credential stored before.
\<close>

theorem refresh_credentials_stamps_metadata:
  "get_credentials m pid = Some c \<Longrightarrow>
   get_provider m pid = Some p \<Longrightarrow>
   p = OAuth2Provider i cfg \<or> p = JWTProvider i cfg \<Longrightarrow>
   fst (refresh_credentials now m pid) = Returned True \<and>
   (\<exists>c'. get_credentials (snd (refresh_credentials now m pid)) pid = Some c' \<and>
      dict_get (metadata c') ''refreshed_at'' = Some (PyStr now) \<and>
      access_token c' = access_token c \<and>
      refresh_token c' = refresh_token c \<and>
      provider_type c' = provider_type c \<and>
      username c' = username c \<and>
      password c' = password c \<and>
      api_key c' = api_key c \<and>
      expires_in c' = expires_in c \<and>
      c'\<lparr>metadata := metadata c\<rparr> = c)"
  by (auto simp: refresh_credentials_def get_credentials_def get_provider_def dict_get_set
      OAuth2Provider_refresh_token_def JWTProvider_refresh_token_def)

text \<open>
  An OAuth2 credential with empty metadata and a JWT credential with one metadata entry,
  each refreshed once.
\<close>

theorem refresh_credentials_stamps_metadata_witness:
  "(let c = AuthCredentials_init OAUTH2 (Some ''tok-1'') (Some ''r-1'') None None None (Some 3600) None;
        m = snd (authenticate (snd (register_provider AuthManager_init (OAuth2Provider ''hf'' []))) ''hf'' c);
        m' = snd (refresh_credentials ''2026-01-01 00:00:00'' m ''hf'')
    in get_credentials m ''hf'' = Some c \<and>
       get_provider m ''hf'' = Some (OAuth2Provider ''hf'' []) \<and>
       fst (refresh_credentials ''2026-01-01 00:00:00'' m ''hf'') = Returned True \<and>
       get_credentials m' ''hf'' =
         Some (c\<lparr>metadata := [(''refreshed_at'', PyStr ''2026-01-01 00:00:00'')]\<rparr>)) \<and>
   (let c = AuthCredentials_init JWT (Some ''tok-2'') None None None None None (Some [(''iss'', PyStr ''x'')]);
        m = snd (authenticate (snd (register_provider AuthManager_init (JWTProvider ''j'' []))) ''j'' c);
        m' = snd (refresh_credentials ''2026-01-01 00:00:00'' m ''j'')
    in get_credentials m ''j'' = Some c \<and>
       get_provider m ''j'' = Some (JWTProvider ''j'' []) \<and>
       fst (refresh_credentials ''2026-01-01 00:00:00'' m ''j'') = Returned True \<and>
       get_credentials m' ''j'' =
         Some (c\<lparr>metadata := [(''iss'', PyStr ''x''), (''refreshed_at'', PyStr ''2026-01-01 00:00:00'')]\<rparr>))"
  using
    refresh_credentials_stamps_metadata [of
      "snd (authenticate (snd (register_provider AuthManager_init (OAuth2Provider ''hf'' []))) ''hf''
         (AuthCredentials_init OAUTH2 (Some ''tok-1'') (Some ''r-1'') None None None (Some 3600) None))"
      "''hf''"
      "AuthCredentials_init OAUTH2 (Some ''tok-1'') (Some ''r-1'') None None None (Some 3600) None"
      "OAuth2Provider ''hf'' []" "''hf''" "[]" "''2026-01-01 00:00:00''"]
    refresh_credentials_stamps_metadata [of
      "snd (authenticate (snd (register_provider AuthManager_init (JWTProvider ''j'' []))) ''j''
         (AuthCredentials_init JWT (Some ''tok-2'') None None None None None (Some [(''iss'', PyStr ''x'')])))"
      "''j''"
      "AuthCredentials_init JWT (Some ''tok-2'') None None None None None (Some [(''iss'', PyStr ''x'')])"
      "JWTProvider ''j'' []" "''j''" "[]" "''2026-01-01 00:00:00''"]
  by (simp add: manager_defs provider_defs Let_def)

text \<open>
  Claim C7. For a Basic or an API-key provider registered under an id that has a stored
  credential, the provider's \<open>refresh_token\<close> returns the credential it is given, so
  \<open>refresh_credentials\<close> returns true and leaves the manager, and with it the stored
  credential with all its token fields and metadata, exactly as it was.
\<close>

theorem refresh_credentials_unsupported:
  "get_credentials m pid = Some c \<Longrightarrow>
   get_provider m pid = Some p \<Longrightarrow>
   p = BasicAuthProvider i cfg \<or> p = APIKeyProvider i cfg \<Longrightarrow>
   provider_refresh_token p now c = c \<and>
   fst (refresh_credentials now m pid) = Returned True \<and>
   get_credentials (snd (refresh_credentials now m pid)) pid = Some c \<and>
   snd (refresh_credentials now m pid) = m"
  by (auto simp: refresh_credentials_def get_credentials_def get_provider_def dict_set_same
      BasicAuthProvider_refresh_token_def APIKeyProvider_refresh_token_def)

text \<open>
  A Basic credential and an API-key credential with one metadata entry, each refreshed
  once.
\<close>

theorem refresh_credentials_unsupported_witness:
  "(let c = AuthCredentials_init BASIC None None (Some ''alice'') (Some ''pw1'') None None None;
        m = snd (authenticate (snd (register_provider AuthManager_init (BasicAuthProvider ''b'' []))) ''b'' c)
    in get_credentials m ''b'' = Some c \<and>
       get_provider m ''b'' = Some (BasicAuthProvider ''b'' []) \<and>
       refresh_credentials ''2026-01-01 00:00:00'' m ''b'' = (Returned True, m)) \<and>
   (let c = AuthCredentials_init API_KEY None None None None (Some ''k-1'') None (Some [(''env'', PyStr ''dev'')]);
        m = snd (authenticate (snd (register_provider AuthManager_init (APIKeyProvider ''k'' []))) ''k'' c)
    in get_credentials m ''k'' = Some c \<and>
       get_provider m ''k'' = Some (APIKeyProvider ''k'' []) \<and>
       refresh_credentials ''2026-01-01 00:00:00'' m ''k'' = (Returned True, m))"
  using
    refresh_credentials_unsupported [of
      "snd (authenticate (snd (register_provider AuthManager_init (BasicAuthProvider ''b'' []))) ''b''
         (AuthCredentials_init BASIC None None (Some ''alice'') (Some ''pw1'') None None None))"
      "''b''"
      "AuthCredentials_init BASIC None None (Some ''alice'') (Some ''pw1'') None None None"
      "BasicAuthProvider ''b'' []" "''b''" "[]" "''2026-01-01 00:00:00''"]
    refresh_credentials_unsupported [of
      "snd (authenticate (snd (register_provider AuthManager_init (APIKeyProvider ''k'' []))) ''k''
         (AuthCredentials_init API_KEY None None None None (Some ''k-1'') None (Some [(''env'', PyStr ''dev'')])))"
      "''k''"
      "AuthCredentials_init API_KEY None None None None (Some ''k-1'') None (Some [(''env'', PyStr ''dev'')])"
      "APIKeyProvider ''k'' []" "''k''" "[]" "''2026-01-01 00:00:00''"]
  by (simp add: manager_defs provider_defs Let_def)

section \<open>Revocation\<close>

text \<open>
  Claim C4. For every manager, \<open>revoke_credentials\<close> returns false and changes nothing
  when no credential is stored for the id or no provider is registered under it; the
  method has no \<open>raise\<close>, and its model returns a plain boolean. Otherwise the answer of
  the provider's \<open>revoke_token\<close> decides: on true the stored credential is deleted and
  the manager returns true, after which \<open>validate_credentials\<close> on the id is false; on
  false the manager returns false and the credential stays stored.
\<close>

theorem revoke_credentials_contract:
  "(get_credentials m pid = None \<or> get_provider m pid = None \<longrightarrow>
      revoke_credentials m pid = (False, m)) \<and>
   (\<forall>c p. get_credentials m pid = Some c \<and> get_provider m pid = Some p \<and> provider_revoke_token p c \<longrightarrow>
      fst (revoke_credentials m pid) = True \<and>
      get_credentials (snd (revoke_credentials m pid)) pid = None \<and>
      validate_credentials (snd (revoke_credentials m pid)) pid = False \<and>
      providers (snd (revoke_credentials m pid)) = providers m) \<and>
   (\<forall>c p. get_credentials m pid = Some c \<and> get_provider m pid = Some p \<and> \<not> provider_revoke_token p c \<longrightarrow>
      fst (revoke_credentials m pid) = False \<and>
      get_credentials (snd (revoke_credentials m pid)) pid = Some c \<and>
      snd (revoke_credentials m pid) = m)"
  by (auto simp: revoke_credentials_def get_provider_def get_credentials_def
      validate_credentials_def dict_get_del split: option.splits)

text \<open>
  Four managers: \<open>hf\<close> registered and never authenticated; \<open>hf\<close> authenticated and then
  unregistered; \<open>hf\<close> authenticated, whose OAuth2 provider revokes; and a provider of
  another subclass whose \<open>revoke_token\<close> answers false.
\<close>

theorem revoke_credentials_contract_witness:
  "(let m0 = snd (register_provider AuthManager_init (OAuth2Provider ''hf'' []))
    in get_credentials m0 ''hf'' = None \<and> revoke_credentials m0 ''hf'' = (False, m0)) \<and>
   (let c = AuthCredentials_init OAUTH2 (Some ''tok-1'') None None None None None None;
        m1 = snd (authenticate (snd (register_provider AuthManager_init (OAuth2Provider ''hf'' []))) ''hf'' c);
        m2 = snd (unregister_provider m1 ''hf'')
    in get_credentials m2 ''hf'' = Some c \<and> get_provider m2 ''hf'' = None \<and>
       revoke_credentials m2 ''hf'' = (False, m2)) \<and>
   (let c = AuthCredentials_init OAUTH2 (Some ''tok-1'') None None None None None None;
        m1 = snd (authenticate (snd (register_provider AuthManager_init (OAuth2Provider ''hf'' []))) ''hf'' c)
    in get_credentials m1 ''hf'' = Some c \<and> get_provider m1 ''hf'' = Some (OAuth2Provider ''hf'' []) \<and>
       provider_revoke_token (OAuth2Provider ''hf'' []) c \<and>
       validate_credentials m1 ''hf'' \<and>
       fst (revoke_credentials m1 ''hf'') = True \<and>
       get_credentials (snd (revoke_credentials m1 ''hf'')) ''hf'' = None \<and>
       validate_credentials (snd (revoke_credentials m1 ''hf'')) ''hf'' = False) \<and>
   (let c = AuthCredentials_init CUSTOM (Some ''tok-1'') None None None None None None;
        p = CustomProvider ''x'' [] (\<lambda>c. True) (\<lambda>c. c) (\<lambda>c. False) (\<lambda>c. True);
        m1 = snd (authenticate (snd (register_provider AuthManager_init p)) ''x'' c)
    in get_credentials m1 ''x'' = Some c \<and> get_provider m1 ''x'' = Some p \<and>
       \<not> provider_revoke_token p c \<and>
       fst (revoke_credentials m1 ''x'') = False \<and>
       get_credentials (snd (revoke_credentials m1 ''x'')) ''x'' = Some c)"
  using
    revoke_credentials_contract [of "snd (register_provider AuthManager_init (OAuth2Provider ''hf'' []))" "''hf''"]
    revoke_credentials_contract [of "snd (unregister_provider (snd (authenticate (snd (register_provider AuthManager_init (OAuth2Provider ''hf'' []))) ''hf''
        (AuthCredentials_init OAUTH2 (Some ''tok-1'') None None None None None None))) ''hf'')" "''hf''"]
    revoke_credentials_contract [of "snd (authenticate (snd (register_provider AuthManager_init (OAuth2Provider ''hf'' []))) ''hf''
        (AuthCredentials_init OAUTH2 (Some ''tok-1'') None None None None None None))" "''hf''"]
    revoke_credentials_contract [of "snd (authenticate (snd (register_provider AuthManager_init
          (CustomProvider ''x'' [] (\<lambda>c. True) (\<lambda>c. c) (\<lambda>c. False) (\<lambda>c. True)))) ''x''
        (AuthCredentials_init CUSTOM (Some ''tok-1'') None None None None None None))" "''x''"]
  by (simp add: manager_defs provider_defs Let_def)

section \<open>Clearing and the status sweep\<close>

text \<open>
  Claim C9. \<open>clear_all_credentials\<close> empties the credential collection and leaves the
  provider registrations as they were. \<open>get_authentication_status\<close> returns a mapping
  whose keys are exactly the registered provider ids, each mapped to the result of
  \<open>validate_credentials\<close> for that id. Hence after \<open>clear_all_credentials\<close> the status
  maps every registered id to false.
\<close>

theorem clear_all_credentials_then_status:
  "credentials (clear_all_credentials m) = [] \<and>
   providers (clear_all_credentials m) = providers m \<and>
   list_providers (clear_all_credentials m) = list_providers m \<and>
   set (dict_keys (get_authentication_status m)) = set (list_providers m) \<and>
   dict_get (get_authentication_status m) pid =
     (if pid \<in> set (list_providers m) then Some (validate_credentials m pid) else None) \<and>
   dict_get (get_authentication_status (clear_all_credentials m)) pid =
     (if pid \<in> set (list_providers m) then Some False else None)"
proof -
  have keys: "set (dict_keys (get_authentication_status m)) = set (list_providers m)"
  proof (rule set_eqI)
    fix x
    show "x \<in> set (dict_keys (get_authentication_status m)) \<longleftrightarrow> x \<in> set (list_providers m)"
      by (simp add: dict_keys_iff get_authentication_status_get)
  qed
  have frame: "list_providers (clear_all_credentials m) = list_providers m"
    by (simp add: clear_all_credentials_def list_providers_def)
  have cleared: "dict_get (get_authentication_status (clear_all_credentials m)) pid =
      (if pid \<in> set (list_providers m) then Some False else None)"
    by (simp add: get_authentication_status_get frame validate_credentials_cleared)
  show ?thesis
    using keys frame cleared
    by (simp add: get_authentication_status_get clear_all_credentials_def)
qed

text \<open>
  Two providers, \<open>hf\<close> authenticated and \<open>b\<close> not: the status before and after
  \<open>clear_all_credentials\<close>.
\<close>

theorem clear_all_credentials_then_status_witness:
  "(let c = AuthCredentials_init OAUTH2 (Some ''tok-1'') None None None None None None;
        m1 = snd (register_provider AuthManager_init (OAuth2Provider ''hf'' []));
        m2 = snd (register_provider m1 (BasicAuthProvider ''b'' []));
        m3 = snd (authenticate m2 ''hf'' c)
    in get_authentication_status m3 = [(''hf'', True), (''b'', False)] \<and>
       get_authentication_status (clear_all_credentials m3) = [(''hf'', False), (''b'', False)] \<and>
       list_providers (clear_all_credentials m3) = [''hf'', ''b''] \<and>
       dict_get (get_authentication_status (clear_all_credentials m3)) ''hf'' = Some False \<and>
       dict_get (get_authentication_status (clear_all_credentials m3)) ''zz'' = None)"
  using clear_all_credentials_then_status [of
      "snd (authenticate (snd (register_provider (snd (register_provider AuthManager_init
          (OAuth2Provider ''hf'' []))) (BasicAuthProvider ''b'' []))) ''hf''
          (AuthCredentials_init OAUTH2 (Some ''tok-1'') None None None None None None))" "''hf''"]
  by (simp add: manager_defs provider_defs Let_def)

section \<open>Orphaned credentials\<close>

text \<open>
  Claim C10. When a credential is stored for an id and the provider under that id is
  unregistered, the credential stays in storage: \<open>get_credentials\<close> still returns it,
  while \<open>validate_credentials\<close> returns false. When a new provider is then registered
  under the same id, the registration succeeds, and \<open>validate_credentials\<close> is at once
  the new provider's \<open>validate_token\<close> on the orphaned credential: it is true whenever
  that provider accepts the credential, with no \<open>authenticate\<close> call in between.
\<close>

theorem orphaned_credential_revalidated:
  assumes "get_credentials m pid = Some c"
    and "get_provider m pid = Some p"
    and "provider_id q = pid"
  shows "fst (unregister_provider m pid) = True \<and>
    get_credentials (snd (unregister_provider m pid)) pid = Some c \<and>
    validate_credentials (snd (unregister_provider m pid)) pid = False \<and>
    fst (register_provider (snd (unregister_provider m pid)) q) = Returned () \<and>
    get_credentials (snd (register_provider (snd (unregister_provider m pid)) q)) pid = Some c \<and>
    validate_credentials (snd (register_provider (snd (unregister_provider m pid)) q)) pid =
      provider_validate_token q c"
proof -
  have reg: "dict_contains (providers m) pid"
    using assms(2) by (simp add: dict_contains_iff get_provider_def)
  have gone: "\<not> dict_contains (dict_del (providers m) pid) pid"
    by (simp add: dict_contains_iff dict_get_del)
  show ?thesis
    using assms reg gone
    by (simp add: unregister_provider_def register_provider_def get_credentials_def
        validate_credentials_def get_provider_def dict_get_del dict_get_set)
qed

text \<open>
  An OAuth2 provider \<open>hf\<close> authenticates a token and is unregistered; a JWT provider
  registered as \<open>hf\<close> then validates the token it never authenticated.
\<close>

theorem orphaned_credential_revalidated_witness:
  "(let c = AuthCredentials_init OAUTH2 (Some ''tok-1'') None None None None None None;
        m = snd (authenticate (snd (register_provider AuthManager_init (OAuth2Provider ''hf'' []))) ''hf'' c);
        m1 = snd (unregister_provider m ''hf'');
        m2 = snd (register_provider m1 (JWTProvider ''hf'' []))
    in get_credentials m ''hf'' = Some c \<and>
       get_provider m ''hf'' = Some (OAuth2Provider ''hf'' []) \<and>
       provider_id (JWTProvider ''hf'' []) = ''hf'' \<and>
       list_providers m1 = [] \<and>
       get_credentials m1 ''hf'' = Some c \<and>
       validate_credentials m1 ''hf'' = False \<and>
       fst (register_provider m1 (JWTProvider ''hf'' [])) = Returned () \<and>
       validate_credentials m2 ''hf'' = True)"
  using orphaned_credential_revalidated [of
      "snd (authenticate (snd (register_provider AuthManager_init (OAuth2Provider ''hf'' []))) ''hf''
         (AuthCredentials_init OAUTH2 (Some ''tok-1'') None None None None None None))"
      "''hf''"
      "AuthCredentials_init OAUTH2 (Some ''tok-1'') None None None None None None"
      "OAuth2Provider ''hf'' []" "JWTProvider ''hf'' []"]
  by (simp add: manager_defs provider_defs Let_def)

end
